theory Spec2Isabelle
  imports Complex_Main "HOL-Library.Multiset"
begin

section \<open>JavaScript values\<close>

text \<open>
  The values that travel through the server: the fields of a parsed JSON request body, the
  parameters handed to \<^verbatim>\<open>pool.query\<close>, and the objects given to \<^verbatim>\<open>res.json\<close>.
  A number carries the mathematical value of the double; a field that is absent from an
  object reads as \<open>JUndefined\<close>. \<open>JDate\<close> is the \<^verbatim>\<open>Date\<close> object the driver returns for a
  timestamp column.
\<close>

datatype jsval =
    JUndefined
  | JNull
  | JBool bool
  | JNum rat
  | JStr string
  | JDate nat
  | JArr "jsval list"
  | JObj "(string \<times> jsval) list"

text \<open>What \<^verbatim>\<open>!v\<close> negates: \<^verbatim>\<open>undefined\<close>, \<^verbatim>\<open>null\<close>, \<^verbatim>\<open>false\<close>, \<^verbatim>\<open>0\<close> and \<^verbatim>\<open>""\<close> are falsy,
  every object is truthy.\<close>

fun truthy :: "jsval \<Rightarrow> bool" where
  "truthy JUndefined = False"
| "truthy JNull = False"
| "truthy (JBool b) = b"
| "truthy (JNum n) = (n \<noteq> 0)"
| "truthy (JStr s) = (s \<noteq> [])"
| "truthy (JDate t) = True"
| "truthy (JArr vs) = True"
| "truthy (JObj kvs) = True"

text \<open>\<^verbatim>\<open>a || b\<close>\<close>

definition js_or :: "jsval \<Rightarrow> jsval \<Rightarrow> jsval" where
  "js_or a b = (if truthy a then a else b)"

text \<open>\<^verbatim>\<open>o.k\<close>, the property \<open>k\<close> of an object; a property that is not there is
  \<^verbatim>\<open>undefined\<close>.\<close>

fun js_get :: "jsval \<Rightarrow> string \<Rightarrow> jsval" where
  "js_get (JObj kvs) k = (case map_of kvs k of None \<Rightarrow> JUndefined | Some v \<Rightarrow> v)"
| "js_get _ k = JUndefined"

text \<open>\<^verbatim>\<open>Object.keys(o)\<close>\<close>

fun js_keys :: "jsval \<Rightarrow> string list" where
  "js_keys (JObj kvs) = map fst kvs"
| "js_keys _ = []"

text \<open>\<^verbatim>\<open>hdr.startsWith(p)\<close>\<close>

definition startsWith :: "string \<Rightarrow> string \<Rightarrow> bool" where
  "startsWith s p = (take (length p) s = p)"

section \<open>The store\<close>

text \<open>
  Modelled from the spec: the schema of the tables \<^verbatim>\<open>users\<close> and \<^verbatim>\<open>products\<close>, which is not
  among the sources. The columns are the ones the queries name and the spec's data model
  lists. A column filled from a request field holds a \<open>cell\<close>: \<open>None\<close> is SQL NULL, \<open>Some t\<close>
  a value in the store's text form. \<^verbatim>\<open>role\<close>, \<^verbatim>\<open>status\<close> and \<^verbatim>\<open>password_hash\<close> are only ever
  written from strings that the code itself produced. Keys come from a sequence per table,
  \<^verbatim>\<open>created_at\<close> from the store's clock.
\<close>

type_synonym cell = "string option"

record user =
  u_id :: nat
  u_name :: cell
  u_email :: cell
  u_password_hash :: string
  u_role :: string
  u_status :: string
  u_created_at :: nat

record product =
  p_id :: nat
  p_farmer_id :: nat
  p_name :: cell
  p_price :: cell
  p_quantity :: cell
  p_image_url :: cell
  p_description :: cell
  p_created_at :: nat

record db =
  users :: "user list"
  products :: "product list"
  users_id_seq :: nat
  products_id_seq :: nat

datatype column =
    Users_name
  | Users_email
  | Products_name
  | Products_price
  | Products_quantity
  | Products_image_url
  | Products_description

section \<open>Libraries and configuration\<close>

text \<open>
  The claims that \<^verbatim>\<open>signToken\<close> signs: \<^verbatim>\<open>{ id, role, status, name }\<close> of a user row.
\<close>

record claims =
  c_id :: nat
  c_role :: string
  c_status :: string
  c_name :: cell

text \<open>
  The libraries the server imports, as parameters, at the moment of one request:
  \<^item> \<open>jwt_verify t\<close> is \<^verbatim>\<open>jwt.verify(t, process.env.JWT_SECRET)\<close>, \<open>None\<close> when it throws
    (bad signature, malformed, expired);
  \<^item> \<open>jwt_sign c\<close> is \<^verbatim>\<open>jwt.sign(c, secret, { expiresIn })\<close>;
  \<^item> \<open>bcrypt_hash p\<close> is \<^verbatim>\<open>await bcrypt.hash(p, 10)\<close> and \<open>bcrypt_compare p h\<close> is
    \<^verbatim>\<open>await bcrypt.compare(p, h)\<close>, \<open>None\<close> when the promise rejects;
  \<^item> \<open>pg_in col v\<close> is what the driver and the store make of the non-null query parameter
    \<open>v\<close> where the statement compares it with, or stores it in, the column \<open>col\<close>:
    the value in text form, or \<open>None\<close> when the statement raises;
  \<^item> \<open>pg_id s\<close> is the same for the route parameter \<^verbatim>\<open>:id\<close> (always a string) at a key column;
  \<^item> \<open>pg_out col t\<close> is what the driver's type parser hands back for the stored value \<open>t\<close> of
    the column \<open>col\<close>: a number for an integer column, a string for a numeric one;
  \<^item> \<open>now\<close> is the store's clock.
\<close>

record env =
  jwt_verify :: "string \<Rightarrow> claims option"
  jwt_sign :: "claims \<Rightarrow> string"
  bcrypt_hash :: "jsval \<Rightarrow> string option"
  bcrypt_compare :: "jsval \<Rightarrow> string \<Rightarrow> bool option"
  pg_in :: "column \<Rightarrow> jsval \<Rightarrow> string option"
  pg_id :: "string \<Rightarrow> nat option"
  pg_out :: "column \<Rightarrow> string \<Rightarrow> jsval"
  now :: nat

text \<open>
  A query parameter at a column: the driver sends \<^verbatim>\<open>undefined\<close> and \<^verbatim>\<open>null\<close> as NULL.
  The outer \<open>None\<close> is a statement that raises.
\<close>

definition sql_param :: "env \<Rightarrow> column \<Rightarrow> jsval \<Rightarrow> cell option" where
  "sql_param e col v =
     (if v = JUndefined \<or> v = JNull then Some None
      else (case pg_in e col v of None \<Rightarrow> None | Some t \<Rightarrow> Some (Some t)))"

text \<open>\<^verbatim>\<open>COALESCE($n, column)\<close>\<close>

definition coalesce :: "cell \<Rightarrow> cell \<Rightarrow> cell" where
  "coalesce a b = (case a of None \<Rightarrow> b | Some t \<Rightarrow> Some t)"

text \<open>A cell of a text column as the driver hands it back in a row.\<close>

definition cell_js :: "cell \<Rightarrow> jsval" where
  "cell_js c = (case c of None \<Rightarrow> JNull | Some t \<Rightarrow> JStr t)"

text \<open>A cell of a column that is not text (price, quantity) as the driver hands it back.\<close>

definition cell_out :: "env \<Rightarrow> column \<Rightarrow> cell \<Rightarrow> jsval" where
  "cell_out e col c = (case c of None \<Rightarrow> JNull | Some t \<Rightarrow> pg_out e col t)"

section \<open>Requests and responses\<close>

text \<open>
  \<open>authorization\<close> is \<^verbatim>\<open>req.headers.authorization\<close>, \<open>params_id\<close> is \<^verbatim>\<open>req.params.id\<close>,
  \<open>body\<close> is the object \<^verbatim>\<open>express.json()\<close> leaves in \<^verbatim>\<open>req.body\<close> (read by field name),
  \<open>user\<close> is \<^verbatim>\<open>req.user\<close>, which only \<^verbatim>\<open>auth\<close> assigns.
\<close>

record request =
  authorization :: "string option"
  params_id :: string
  body :: "string \<Rightarrow> jsval"
  user :: "claims option"

text \<open>
  What a middleware or a handler ends with: \<open>Sent s j\<close> is \<^verbatim>\<open>res.status(s).json(j)\<close>,
  \<open>Threw\<close> is an exception that leaves the function uncaught. A middleware that calls
  \<^verbatim>\<open>next()\<close> returns the request on the right.
\<close>

datatype outcome = Sent nat jsval | Threw

definition err :: "nat \<Rightarrow> string \<Rightarrow> outcome" where
  "err s msg = Sent s (JObj [(''error'', JStr msg)])"

definition ok_true :: outcome where
  "ok_true = Sent 200 (JObj [(''ok'', JBool True)])"

section \<open>Helpers\<close>

definition claims_of :: "user \<Rightarrow> claims" where
  "claims_of u = \<lparr>c_id = u_id u, c_role = u_role u, c_status = u_status u, c_name = u_name u\<rparr>"

definition signToken :: "env \<Rightarrow> user \<Rightarrow> string" where
  "signToken e u = jwt_sign e (claims_of u)"

definition auth :: "env \<Rightarrow> request \<Rightarrow> outcome + request" where
  "auth e req =
     (let hdr = (case authorization req of None \<Rightarrow> [] | Some h \<Rightarrow> if h = [] then [] else h);
          token = (if startsWith hdr ''Bearer '' then Some (drop 7 hdr) else None)
      in case token of
           None \<Rightarrow> Inl (err 401 ''Missing token'')
         | Some t \<Rightarrow>
             if t = [] then Inl (err 401 ''Missing token'')
             else (case jwt_verify e t of
                     Some c \<Rightarrow> Inr (req\<lparr>user := Some c\<rparr>)
                   | None \<Rightarrow> Inl (err 401 ''Invalid token'')))"

definition requireRole :: "string list \<Rightarrow> request \<Rightarrow> outcome + request" where
  "requireRole roles req =
     (case user req of
        None \<Rightarrow> Inl (err 403 ''Forbidden'')
      | Some c \<Rightarrow>
          if c_role c \<notin> set roles then Inl (err 403 ''Forbidden'') else Inr req)"

text \<open>\<^verbatim>\<open>req.user.role\<close> on a request without \<^verbatim>\<open>req.user\<close> is a TypeError.\<close>

definition requireApprovedFarmer :: "request \<Rightarrow> outcome + request" where
  "requireApprovedFarmer req =
     (case user req of
        None \<Rightarrow> Inl Threw
      | Some c \<Rightarrow>
          if c_role c \<noteq> ''farmer'' then Inl (err 403 ''Farmer only'')
          else if c_status c \<noteq> ''approved'' then Inl (err 403 ''Farmer not approved by admin yet'')
          else Inr req)"

text \<open>
  \<^verbatim>\<open>app.METHOD(path, m1, m2, handler)\<close>: the middlewares run in order, the first one that
  does not call \<^verbatim>\<open>next()\<close> ends the request and the store is as it was.
\<close>

definition guarded ::
  "(request \<Rightarrow> outcome + request) list \<Rightarrow> (request \<Rightarrow> db \<Rightarrow> outcome \<times> db) \<Rightarrow>
   request \<Rightarrow> db \<Rightarrow> outcome \<times> db" where
  "guarded mws handler req d =
     (case fold (\<lambda>mw r. case r of Inl out \<Rightarrow> Inl out | Inr rq \<Rightarrow> mw rq) mws (Inr req) of
        Inl out \<Rightarrow> (out, d)
      | Inr rq \<Rightarrow> handler rq d)"

section \<open>AUTH\<close>

text \<open>\<^verbatim>\<open>SELECT ... FROM users WHERE email=$1\<close>; a NULL parameter matches no row.\<close>

definition select_users_by_email :: "env \<Rightarrow> db \<Rightarrow> jsval \<Rightarrow> user list option" where
  "select_users_by_email e d email =
     (case sql_param e Users_email email of
        None \<Rightarrow> None
      | Some None \<Rightarrow> Some []
      | Some (Some a) \<Rightarrow> Some (filter (\<lambda>u. u_email u = Some a) (users d)))"

text \<open>\<^verbatim>\<open>INSERT INTO users (name, email, password_hash, role, status) VALUES ($1,$2,$3,$4,$5)\<close>:
  the new row and the store after it, or \<open>None\<close> when the statement raises.\<close>

definition insert_user ::
  "env \<Rightarrow> db \<Rightarrow> jsval \<Rightarrow> jsval \<Rightarrow> string \<Rightarrow> string \<Rightarrow> string \<Rightarrow> (user \<times> db) option" where
  "insert_user e d name email hash role status =
     (case sql_param e Users_name name of
        None \<Rightarrow> None
      | Some n \<Rightarrow>
          (case sql_param e Users_email email of
             None \<Rightarrow> None
           | Some a \<Rightarrow>
               (let u = \<lparr>u_id = users_id_seq d, u_name = n, u_email = a,
                          u_password_hash = hash, u_role = role, u_status = status,
                          u_created_at = now e\<rparr>
                in Some (u, d\<lparr>users := users d @ [u], users_id_seq := Suc (users_id_seq d)\<rparr>))))"

text \<open>The row of \<^verbatim>\<open>RETURNING id, name, email, role, status\<close>.\<close>

definition returning_user :: "user \<Rightarrow> (string \<times> jsval) list" where
  "returning_user u =
     [(''id'', JNum (of_nat (u_id u))), (''name'', cell_js (u_name u)),
      (''email'', cell_js (u_email u)), (''role'', JStr (u_role u)),
      (''status'', JStr (u_status u))]"

text \<open>A row of \<^verbatim>\<open>SELECT * FROM users\<close>.\<close>

definition user_row :: "user \<Rightarrow> (string \<times> jsval) list" where
  "user_row u =
     [(''id'', JNum (of_nat (u_id u))), (''name'', cell_js (u_name u)),
      (''email'', cell_js (u_email u)), (''password_hash'', JStr (u_password_hash u)),
      (''role'', JStr (u_role u)), (''status'', JStr (u_status u)),
      (''created_at'', JDate (u_created_at u))]"

text \<open>\<^verbatim>\<open>POST /api/auth/register\<close>\<close>

definition post_auth_register :: "env \<Rightarrow> request \<Rightarrow> db \<Rightarrow> outcome \<times> db" where
  "post_auth_register e req d =
     (let name = body req ''name''; email = body req ''email'';
          password = body req ''password''; role = body req ''role''
      in if \<not> truthy name \<or> \<not> truthy email \<or> \<not> truthy password \<or> \<not> truthy role
         then (err 400 ''Missing fields'', d)
         else if role \<notin> set [JStr ''consumer'', JStr ''farmer'']
         then (err 400 ''Invalid role'', d)
         else (case select_users_by_email e d email of
                 None \<Rightarrow> (err 500 ''Server error'', d)
               | Some existing \<Rightarrow>
                   if existing \<noteq> [] then (err 409 ''Email already registered'', d)
                   else (case bcrypt_hash e password of
                           None \<Rightarrow> (err 500 ''Server error'', d)
                         | Some hash \<Rightarrow>
                             (let status = (if role = JStr ''farmer'' then ''pending''
                                            else ''approved'')
                              in case insert_user e d name email hash
                                        (case role of JStr r \<Rightarrow> r | _ \<Rightarrow> []) status of
                                   None \<Rightarrow> (err 500 ''Server error'', d)
                                 | Some (row, d') \<Rightarrow>
                                     (Sent 201 (JObj [(''user'', JObj (returning_user row)),
                                                      (''token'', JStr (signToken e row))]),
                                      d')))))"

text \<open>\<^verbatim>\<open>POST /api/auth/login\<close>. \<^verbatim>\<open>const { password_hash, ...safe } = user\<close> drops one key.\<close>

definition post_auth_login :: "env \<Rightarrow> request \<Rightarrow> db \<Rightarrow> outcome \<times> db" where
  "post_auth_login e req d =
     (let email = body req ''email''; password = body req ''password''
      in case select_users_by_email e d email of
           None \<Rightarrow> (err 500 ''Server error'', d)
         | Some [] \<Rightarrow> (err 401 ''Invalid credentials'', d)
         | Some (u # _) \<Rightarrow>
             (case bcrypt_compare e password (u_password_hash u) of
                None \<Rightarrow> (err 500 ''Server error'', d)
              | Some ok \<Rightarrow>
                  if \<not> ok then (err 401 ''Invalid credentials'', d)
                  else (let safe = filter (\<lambda>kv. fst kv \<noteq> ''password_hash'') (user_row u);
                            token = signToken e u
                        in (Sent 200 (JObj [(''user'', JObj safe), (''token'', JStr token)]),
                            d))))"

section \<open>PRODUCTS\<close>

text \<open>
  The rows of
  \<^verbatim>\<open>FROM products p JOIN users u ON u.id = p.farmer_id
     WHERE u.role='farmer' AND u.status='approved' ORDER BY p.created_at DESC\<close>
  before the select list is applied. Rows with equal \<^verbatim>\<open>created_at\<close> may come in any order
  from the store; here they keep the order of the tables.
\<close>

definition public_rows :: "db \<Rightarrow> (product \<times> user) list" where
  "public_rows d =
     sort_key (\<lambda>pu. - int (p_created_at (fst pu)))
       (concat (map (\<lambda>p. map (\<lambda>u. (p, u))
                  (filter (\<lambda>u. u_id u = p_farmer_id p \<and> u_role u = ''farmer''
                                \<and> u_status u = ''approved'') (users d)))
          (products d)))"

text \<open>\<^verbatim>\<open>SELECT p.id, p.name, p.price, p.quantity, p.image_url, p.description,
  u.name AS farmer_name\<close>\<close>

definition listing_row :: "env \<Rightarrow> product \<times> user \<Rightarrow> jsval" where
  "listing_row e pu =
     JObj [(''id'', JNum (of_nat (p_id (fst pu)))), (''name'', cell_js (p_name (fst pu))),
           (''price'', cell_out e Products_price (p_price (fst pu))),
           (''quantity'', cell_out e Products_quantity (p_quantity (fst pu))),
           (''image_url'', cell_js (p_image_url (fst pu))),
           (''description'', cell_js (p_description (fst pu))),
           (''farmer_name'', cell_js (u_name (snd pu)))]"

text \<open>\<^verbatim>\<open>GET /api/products\<close>\<close>

definition get_products :: "env \<Rightarrow> request \<Rightarrow> db \<Rightarrow> outcome \<times> db" where
  "get_products e req d = (Sent 200 (JArr (map (listing_row e) (public_rows d))), d)"

text \<open>A row of \<^verbatim>\<open>RETURNING *\<close> on products.\<close>

definition product_row :: "env \<Rightarrow> product \<Rightarrow> jsval" where
  "product_row e p =
     JObj [(''id'', JNum (of_nat (p_id p))), (''farmer_id'', JNum (of_nat (p_farmer_id p))),
           (''name'', cell_js (p_name p)), (''price'', cell_out e Products_price (p_price p)),
           (''quantity'', cell_out e Products_quantity (p_quantity p)),
           (''image_url'', cell_js (p_image_url p)),
           (''description'', cell_js (p_description p)),
           (''created_at'', JDate (p_created_at p))]"

text \<open>\<^verbatim>\<open>INSERT INTO products (farmer_id, name, price, quantity, image_url, description)
  VALUES ($1,$2,$3,$4,$5,$6) RETURNING *\<close>\<close>

definition insert_product ::
  "env \<Rightarrow> db \<Rightarrow> nat \<Rightarrow> jsval \<Rightarrow> jsval \<Rightarrow> jsval \<Rightarrow> jsval \<Rightarrow> jsval \<Rightarrow> (product \<times> db) option" where
  "insert_product e d farmer name price quantity image_url description =
     (case (sql_param e Products_name name, sql_param e Products_price price,
            sql_param e Products_quantity quantity, sql_param e Products_image_url image_url,
            sql_param e Products_description description) of
        (Some n, Some pr, Some q, Some i, Some ds) \<Rightarrow>
          (let p = \<lparr>p_id = products_id_seq d, p_farmer_id = farmer, p_name = n, p_price = pr,
                     p_quantity = q, p_image_url = i, p_description = ds,
                     p_created_at = now e\<rparr>
           in Some (p, d\<lparr>products := products d @ [p],
                         products_id_seq := Suc (products_id_seq d)\<rparr>))
      | _ \<Rightarrow> None)"

text \<open>The handler of \<^verbatim>\<open>POST /api/products\<close>.\<close>

definition create_product :: "env \<Rightarrow> request \<Rightarrow> db \<Rightarrow> outcome \<times> db" where
  "create_product e req d =
     (let name = body req ''name''; price = body req ''price'';
          quantity = body req ''quantity''; image_url = body req ''image_url'';
          description = body req ''description''
      in if \<not> truthy name \<or> \<not> truthy price \<or> \<not> truthy quantity
         then (err 400 ''name, price, quantity are required'', d)
         else (case user req of
                 None \<Rightarrow> (err 500 ''Server error'', d)
               | Some c \<Rightarrow>
                   (case insert_product e d (c_id c) name price quantity
                           (js_or image_url JNull) (js_or description JNull) of
                      None \<Rightarrow> (err 500 ''Server error'', d)
                    | Some (row, d') \<Rightarrow> (Sent 201 (product_row e row), d'))))"

definition post_products :: "env \<Rightarrow> request \<Rightarrow> db \<Rightarrow> outcome \<times> db" where
  "post_products e = guarded [auth e, requireApprovedFarmer] (create_product e)"

text \<open>
  \<^verbatim>\<open>UPDATE products SET name = COALESCE($1,name), ..., description = COALESCE($5,description)
  WHERE id=$6 RETURNING *\<close>: the store after the statement and the rows it changed.
\<close>

definition set_fields :: "cell \<Rightarrow> cell \<Rightarrow> cell \<Rightarrow> cell \<Rightarrow> cell \<Rightarrow> product \<Rightarrow> product" where
  "set_fields n pr q i ds p =
     p\<lparr>p_name := coalesce n (p_name p), p_price := coalesce pr (p_price p),
       p_quantity := coalesce q (p_quantity p), p_image_url := coalesce i (p_image_url p),
       p_description := coalesce ds (p_description p)\<rparr>"

definition update_product ::
  "env \<Rightarrow> db \<Rightarrow> jsval \<Rightarrow> jsval \<Rightarrow> jsval \<Rightarrow> jsval \<Rightarrow> jsval \<Rightarrow> nat \<Rightarrow> (product list \<times> db) option" where
  "update_product e d name price quantity image_url description k =
     (case (sql_param e Products_name name, sql_param e Products_price price,
            sql_param e Products_quantity quantity, sql_param e Products_image_url image_url,
            sql_param e Products_description description) of
        (Some n, Some pr, Some q, Some i, Some ds) \<Rightarrow>
          Some (map (set_fields n pr q i ds) (filter (\<lambda>p. p_id p = k) (products d)),
                d\<lparr>products := map (\<lambda>p. if p_id p = k then set_fields n pr q i ds p else p)
                                  (products d)\<rparr>)
      | _ \<Rightarrow> None)"

text \<open>The handler of \<^verbatim>\<open>PUT /api/products/:id\<close>. \<^verbatim>\<open>rows[0]\<close> of an empty result is
  \<^verbatim>\<open>undefined\<close>.\<close>

definition put_product :: "env \<Rightarrow> request \<Rightarrow> db \<Rightarrow> outcome \<times> db" where
  "put_product e req d =
     (case user req of
        None \<Rightarrow> (err 500 ''Server error'', d)
      | Some c \<Rightarrow>
          (case pg_id e (params_id req) of
             None \<Rightarrow> (err 500 ''Server error'', d)
           | Some k \<Rightarrow>
               (let ownerCheck = filter (\<lambda>p. p_id p = k \<and> p_farmer_id p = c_id c) (products d)
                in if ownerCheck = [] then (err 404 ''Product not found'', d)
                   else (case update_product e d (body req ''name'') (body req ''price'')
                                (body req ''quantity'') (body req ''image_url'')
                                (body req ''description'') k of
                           None \<Rightarrow> (err 500 ''Server error'', d)
                         | Some (rows, d') \<Rightarrow>
                             (Sent 200 (case rows of [] \<Rightarrow> JUndefined | r # _ \<Rightarrow> product_row e r),
                              d')))))"

definition put_products_id :: "env \<Rightarrow> request \<Rightarrow> db \<Rightarrow> outcome \<times> db" where
  "put_products_id e = guarded [auth e, requireApprovedFarmer] (put_product e)"

text \<open>The handler of \<^verbatim>\<open>DELETE /api/products/:id\<close>, around
  \<^verbatim>\<open>DELETE FROM products WHERE id=$1 AND farmer_id=$2\<close>.\<close>

definition delete_product :: "env \<Rightarrow> request \<Rightarrow> db \<Rightarrow> outcome \<times> db" where
  "delete_product e req d =
     (case user req of
        None \<Rightarrow> (err 500 ''Server error'', d)
      | Some c \<Rightarrow>
          (case pg_id e (params_id req) of
             None \<Rightarrow> (err 500 ''Server error'', d)
           | Some k \<Rightarrow>
               (let rowCount = length (filter (\<lambda>p. p_id p = k \<and> p_farmer_id p = c_id c)
                                         (products d));
                    d' = d\<lparr>products := filter (\<lambda>p. \<not> (p_id p = k \<and> p_farmer_id p = c_id c))
                                           (products d)\<rparr>
                in if rowCount = 0 then (err 404 ''Product not found'', d')
                   else (ok_true, d'))))"

definition delete_products_id :: "env \<Rightarrow> request \<Rightarrow> db \<Rightarrow> outcome \<times> db" where
  "delete_products_id e = guarded [auth e, requireApprovedFarmer] (delete_product e)"

section \<open>ADMIN\<close>

text \<open>A row of \<^verbatim>\<open>SELECT id, name, email, role, status, created_at FROM users\<close>.\<close>

definition pending_row :: "user \<Rightarrow> jsval" where
  "pending_row u =
     JObj [(''id'', JNum (of_nat (u_id u))), (''name'', cell_js (u_name u)),
           (''email'', cell_js (u_email u)), (''role'', JStr (u_role u)),
           (''status'', JStr (u_status u)), (''created_at'', JDate (u_created_at u))]"

definition pending_farmers :: "request \<Rightarrow> db \<Rightarrow> outcome \<times> db" where
  "pending_farmers req d =
     (Sent 200 (JArr (map pending_row
        (sort_key u_created_at
           (filter (\<lambda>u. u_role u = ''farmer'' \<and> u_status u = ''pending'') (users d))))), d)"

definition get_admin_farmers_pending :: "env \<Rightarrow> request \<Rightarrow> db \<Rightarrow> outcome \<times> db" where
  "get_admin_farmers_pending e = guarded [auth e, requireRole [''admin'']] pending_farmers"

text \<open>The handler of \<^verbatim>\<open>PATCH /api/admin/farmers/:id/approve\<close>, around
  \<^verbatim>\<open>UPDATE users SET status='approved' WHERE id=$1 AND role='farmer'\<close>; \<^verbatim>\<open>rowCount\<close> is the
  number of rows the \<^verbatim>\<open>WHERE\<close> clause selects.\<close>

definition approve_farmer :: "env \<Rightarrow> request \<Rightarrow> db \<Rightarrow> outcome \<times> db" where
  "approve_farmer e req d =
     (case pg_id e (params_id req) of
        None \<Rightarrow> (err 500 ''Server error'', d)
      | Some k \<Rightarrow>
          (let rowCount = length (filter (\<lambda>u. u_id u = k \<and> u_role u = ''farmer'') (users d));
               d' = d\<lparr>users := map (\<lambda>u. if u_id u = k \<and> u_role u = ''farmer''
                                        then u\<lparr>u_status := ''approved''\<rparr> else u) (users d)\<rparr>
           in if rowCount = 0 then (err 404 ''Farmer not found or already approved'', d')
              else (ok_true, d')))"

definition patch_admin_farmers_approve :: "env \<Rightarrow> request \<Rightarrow> db \<Rightarrow> outcome \<times> db" where
  "patch_admin_farmers_approve e = guarded [auth e, requireRole [''admin'']] (approve_farmer e)"

section \<open>The update rule as the specification words it\<close>

text \<open>
  A field that the request provides replaces the stored value (by what the store makes of
  the provided value), a field that is omitted, \<^verbatim>\<open>null\<close> or \<^verbatim>\<open>undefined\<close>, keeps it.
\<close>

definition spec_merge_field :: "env \<Rightarrow> column \<Rightarrow> jsval \<Rightarrow> cell \<Rightarrow> cell" where
  "spec_merge_field e col v old = (if v = JUndefined \<or> v = JNull then old else pg_in e col v)"

definition spec_merge :: "env \<Rightarrow> (string \<Rightarrow> jsval) \<Rightarrow> product \<Rightarrow> product" where
  "spec_merge e b p =
     p\<lparr>p_name := spec_merge_field e Products_name (b ''name'') (p_name p),
       p_price := spec_merge_field e Products_price (b ''price'') (p_price p),
       p_quantity := spec_merge_field e Products_quantity (b ''quantity'') (p_quantity p),
       p_image_url := spec_merge_field e Products_image_url (b ''image_url'') (p_image_url p),
       p_description :=
         spec_merge_field e Products_description (b ''description'') (p_description p)\<rparr>"

section \<open>A concrete deployment\<close>

text \<open>
  Tokens, libraries and a store to run the server on: an admin, the approved farmer Alice
  with two products, the pending farmer Bob with one, and the consumer Carol. The hash of
  a password is the password behind a mark, and, as the library does, hashing and
  comparing reject a password that is not a string. The store takes strings only, its keys
  are integers, and the driver hands a quantity back as a number and a price as a string.
\<close>

definition alice :: claims where
  "alice = \<lparr>c_id = 1, c_role = ''farmer'', c_status = ''approved'', c_name = Some ''Alice''\<rparr>"

definition bob :: claims where
  "bob = \<lparr>c_id = 2, c_role = ''farmer'', c_status = ''pending'', c_name = Some ''Bob''\<rparr>"

definition carol :: claims where
  "carol = \<lparr>c_id = 3, c_role = ''consumer'', c_status = ''approved'', c_name = Some ''Carol''\<rparr>"

definition root :: claims where
  "root = \<lparr>c_id = 0, c_role = ''admin'', c_status = ''approved'', c_name = Some ''Admin''\<rparr>"

text \<open>The value of a decimal digit, by its place among the ten digits.\<close>

definition digit_of :: "char \<Rightarrow> nat option" where
  "digit_of c = map_of (zip ''0123456789'' [0, 1, 2, 3, 4, 5, 6, 7, 8, 9]) c"

fun read_digits :: "nat \<Rightarrow> string \<Rightarrow> nat option" where
  "read_digits n [] = Some n"
| "read_digits n (c # cs) =
     (case digit_of c of None \<Rightarrow> None | Some v \<Rightarrow> read_digits (10 * n + v) cs)"

text \<open>An integer column reads decimal digits and raises on anything else.\<close>

definition read_key :: "string \<Rightarrow> nat option" where
  "read_key s = (if s = [] then None else read_digits 0 s)"

definition sample_env :: env where
  "sample_env =
     \<lparr>jwt_verify = (\<lambda>t. if t = ''A'' then Some alice else if t = ''B'' then Some bob
                         else if t = ''C'' then Some carol else if t = ''R'' then Some root
                         else None),
      jwt_sign = (\<lambda>c. c_role c @ ''/'' @ c_status c),
      bcrypt_hash = (\<lambda>p. case p of JStr s \<Rightarrow> Some (''#'' @ s) | _ \<Rightarrow> None),
      bcrypt_compare = (\<lambda>p h. case p of JStr s \<Rightarrow> Some (''#'' @ s = h) | _ \<Rightarrow> None),
      pg_in = (\<lambda>col v. case v of JStr s \<Rightarrow> Some s | _ \<Rightarrow> None),
      pg_id = read_key,
      pg_out = (\<lambda>col t. if col = Products_quantity
                         then (case read_key t of None \<Rightarrow> JStr t | Some n \<Rightarrow> JNum (of_nat n))
                         else JStr t),
      now = 50\<rparr>"

definition user_of :: "claims \<Rightarrow> string \<Rightarrow> string \<Rightarrow> nat \<Rightarrow> user" where
  "user_of c email hash t =
     \<lparr>u_id = c_id c, u_name = c_name c, u_email = Some email, u_password_hash = hash,
      u_role = c_role c, u_status = c_status c, u_created_at = t\<rparr>"

definition tomatoes :: product where
  "tomatoes = \<lparr>p_id = 1, p_farmer_id = 1, p_name = Some ''Tomatoes'', p_price = Some ''2.50'',
               p_quantity = Some ''10'', p_image_url = Some ''t.png'', p_description = None,
               p_created_at = 10\<rparr>"

definition maize :: product where
  "maize = \<lparr>p_id = 2, p_farmer_id = 1, p_name = Some ''Maize'', p_price = Some ''1.00'',
            p_quantity = Some ''40'', p_image_url = None, p_description = None,
            p_created_at = 20\<rparr>"

definition beans :: product where
  "beans = \<lparr>p_id = 3, p_farmer_id = 2, p_name = Some ''Beans'', p_price = Some ''3.00'',
            p_quantity = Some ''5'', p_image_url = None, p_description = None,
            p_created_at = 30\<rparr>"

definition sample_db :: db where
  "sample_db =
     \<lparr>users = [user_of root ''admin@temo.local'' ''#Admin@123'' 1,
               user_of alice ''alice@temo.local'' ''#apples'' 2,
               user_of bob ''bob@temo.local'' ''#beans'' 3,
               user_of carol ''carol@temo.local'' ''#carrots'' 4],
      products = [tomatoes, maize, beans],
      users_id_seq = 4, products_id_seq = 4\<rparr>"

text \<open>A request with a bearer token, a route parameter and a body given by its fields.\<close>

definition request_of :: "string \<Rightarrow> string \<Rightarrow> (string \<times> jsval) list \<Rightarrow> request" where
  "request_of t i kvs =
     \<lparr>authorization = Some (''Bearer '' @ t), params_id = i,
      body = (\<lambda>k. case map_of kvs k of None \<Rightarrow> JUndefined | Some v \<Rightarrow> v), user = None\<rparr>"

section \<open>Running the routes\<close>

lemma guarded_two:
  "guarded [m1, m2] h req d =
     (case m1 req of Inl out \<Rightarrow> (out, d)
      | Inr r1 \<Rightarrow> (case m2 r1 of Inl out \<Rightarrow> (out, d) | Inr r2 \<Rightarrow> h r2 d))"
  by (simp add: guarded_def split: sum.splits)

lemma auth_bearer:
  "authorization req = Some (''Bearer '' @ t) \<Longrightarrow> t \<noteq> [] \<Longrightarrow> jwt_verify e t = Some c \<Longrightarrow>
   auth e req = Inr (req\<lparr>user := Some c\<rparr>)"
  by (simp add: auth_def startsWith_def)

lemma approved_farmer_passes:
  "c_role c = ''farmer'' \<Longrightarrow> c_status c = ''approved'' \<Longrightarrow>
   requireApprovedFarmer (req\<lparr>user := Some c\<rparr>) = Inr (req\<lparr>user := Some c\<rparr>)"
  by (simp add: requireApprovedFarmer_def)

lemma filter_none: "filter P xs = [] \<Longrightarrow> filter (\<lambda>x. \<not> P x) xs = xs"
  by (induction xs) (auto split: if_splits)

lemma request_of_sel [simp]:
  "authorization (request_of t i kvs) = Some (''Bearer '' @ t)"
  "params_id (request_of t i kvs) = i"
  "body (request_of t i kvs) k = (case map_of kvs k of None \<Rightarrow> JUndefined | Some v \<Rightarrow> v)"
  "user (request_of t i kvs) = None"
  by (simp_all add: request_of_def)

lemma sample_auth:
  "jwt_verify sample_env ''A'' = Some alice" "jwt_verify sample_env ''B'' = Some bob"
  "jwt_verify sample_env ''C'' = Some carol" "jwt_verify sample_env ''R'' = Some root"
  by (simp_all add: sample_env_def)

lemma sample_pg_id:
  "pg_id sample_env ''1'' = Some 1" "pg_id sample_env ''2'' = Some 2"
  "pg_id sample_env ''3'' = Some 3" "pg_id sample_env ''9'' = Some 9"
  "pg_id sample_env ''abc'' = None"
  by (simp_all add: sample_env_def read_key_def digit_of_def)

lemma sample_db_sel:
  "products sample_db = [tomatoes, maize, beans]"
  "users sample_db = [user_of root ''admin@temo.local'' ''#Admin@123'' 1,
               user_of alice ''alice@temo.local'' ''#apples'' 2,
               user_of bob ''bob@temo.local'' ''#beans'' 3,
               user_of carol ''carol@temo.local'' ''#carrots'' 4]"
  "users_id_seq sample_db = 4" "products_id_seq sample_db = 4"
  by (simp_all add: sample_db_def)

section \<open>Access guard\<close>

text \<open>
  C10. \<^verbatim>\<open>requireRole\<close> is total in the claims: it calls \<^verbatim>\<open>next()\<close>, with the request as it
  is, exactly when claims are attached whose role is among the allowed ones; in every other
  case, a request without claims included, it answers 403 \<^verbatim>\<open>Forbidden\<close>. It never throws.
\<close>

theorem requireRole_total:
  "requireRole roles req =
     (if \<exists>c. user req = Some c \<and> c_role c \<in> set roles then Inr req
      else Inl (err 403 ''Forbidden''))
   \<and> requireRole roles req \<noteq> Inl Threw"
  by (auto simp: requireRole_def err_def split: option.splits)

theorem requireRole_total_witness:
  "requireRole [''admin''] (request_of ''R'' [] []) = Inl (err 403 ''Forbidden'')
   \<and> requireRole [''admin''] ((request_of ''B'' [] [])\<lparr>user := Some bob\<rparr>)
       = Inl (err 403 ''Forbidden'')
   \<and> requireRole [''admin''] ((request_of ''R'' [] [])\<lparr>user := Some root\<rparr>)
       = Inr ((request_of ''R'' [] [])\<lparr>user := Some root\<rparr>)"
  using requireRole_total [of "[''admin'']" "request_of ''R'' [] []"]
    requireRole_total [of "[''admin'']" "(request_of ''B'' [] [])\<lparr>user := Some bob\<rparr>"]
    requireRole_total [of "[''admin'']" "(request_of ''R'' [] [])\<lparr>user := Some root\<rparr>"]
  by (simp add: bob_def root_def)

text \<open>
  C1. A request to \<^verbatim>\<open>POST /api/products\<close>, \<^verbatim>\<open>PUT /api/products/:id\<close> or
  \<^verbatim>\<open>DELETE /api/products/:id\<close> that carries a valid token is answered 403, with the store
  as it was, when the token's claims are not those of an approved farmer. The guard has two
  stages with two messages: a role other than farmer gives \<^verbatim>\<open>Farmer only\<close>; the role farmer
  with a status other than approved (pending, in particular) gives
  \<^verbatim>\<open>Farmer not approved by admin yet\<close>.
\<close>

theorem unapproved_farmer_forbidden:
  assumes "authorization req = Some (''Bearer '' @ t)" and "t \<noteq> []"
    and "jwt_verify e t = Some c"
    and "c_role c \<noteq> ''farmer'' \<or> c_status c \<noteq> ''approved''"
  shows "(\<forall>route \<in> set [post_products e, put_products_id e, delete_products_id e].
           route req d =
             (if c_role c \<noteq> ''farmer'' then (err 403 ''Farmer only'', d)
              else (err 403 ''Farmer not approved by admin yet'', d)))
    \<and> err 403 ''Farmer only'' \<noteq> err 403 ''Farmer not approved by admin yet''"
  using assms
  by (auto simp: post_products_def put_products_id_def delete_products_id_def guarded_two
      auth_bearer requireApprovedFarmer_def err_def)

theorem unapproved_farmer_forbidden_witness:
  "post_products sample_env
      (request_of ''B'' [] [(''name'', JStr ''Beans''), (''price'', JStr ''3.00''),
                            (''quantity'', JStr ''5'')]) sample_db
     = (err 403 ''Farmer not approved by admin yet'', sample_db)
   \<and> put_products_id sample_env (request_of ''B'' ''3'' [(''price'', JStr ''4.00'')]) sample_db
     = (err 403 ''Farmer not approved by admin yet'', sample_db)
   \<and> delete_products_id sample_env (request_of ''B'' ''3'' []) sample_db
     = (err 403 ''Farmer not approved by admin yet'', sample_db)
   \<and> delete_products_id sample_env (request_of ''C'' ''3'' []) sample_db
     = (err 403 ''Farmer only'', sample_db)"
  using unapproved_farmer_forbidden [of "request_of ''B'' [] [(''name'', JStr ''Beans''),
            (''price'', JStr ''3.00''), (''quantity'', JStr ''5'')]" "''B''" sample_env bob sample_db]
    unapproved_farmer_forbidden [of "request_of ''B'' ''3'' [(''price'', JStr ''4.00'')]"
      "''B''" sample_env bob sample_db]
    unapproved_farmer_forbidden [of "request_of ''B'' ''3'' []" "''B''" sample_env bob sample_db]
    unapproved_farmer_forbidden [of "request_of ''C'' ''3'' []" "''C''" sample_env carol sample_db]
  by (simp add: sample_auth bob_def carol_def)

section \<open>Product catalog\<close>

text \<open>
  C7. For an approved farmer with a valid token, \<^verbatim>\<open>POST /api/products\<close> answers 400 with
  \<^verbatim>\<open>name, price, quantity are required\<close>, and leaves the store as it was, whenever one of
  name, price and quantity is absent or falsy: \<^verbatim>\<open>undefined\<close>, \<^verbatim>\<open>null\<close>, the number 0, the
  empty string or \<^verbatim>\<open>false\<close>. A price of 0 and a quantity of 0 are rejected as missing.
\<close>

theorem create_requires_truthy_fields:
  assumes "authorization req = Some (''Bearer '' @ t)" and "t \<noteq> []"
    and "jwt_verify e t = Some c"
    and "c_role c = ''farmer''" and "c_status c = ''approved''"
    and "\<exists>f \<in> set [''name'', ''price'', ''quantity''].
           body req f \<in> set [JUndefined, JNull, JNum 0, JStr [], JBool False]
           \<or> \<not> truthy (body req f)"
  shows "post_products e req d = (err 400 ''name, price, quantity are required'', d)"
proof -
  have "\<not> truthy (body req ''name'') \<or> \<not> truthy (body req ''price'')
        \<or> \<not> truthy (body req ''quantity'')"
    using assms(6) by auto
  then show ?thesis
    using assms(1-5)
    by (auto simp: post_products_def guarded_two auth_bearer approved_farmer_passes
        create_product_def)
qed

theorem create_requires_truthy_fields_witness:
  "post_products sample_env
      (request_of ''A'' [] [(''name'', JStr ''Kale''), (''price'', JNum 0),
                            (''quantity'', JStr ''5'')]) sample_db
     = (err 400 ''name, price, quantity are required'', sample_db)
   \<and> post_products sample_env
      (request_of ''A'' [] [(''name'', JStr ''Kale''), (''price'', JStr ''2.00''),
                            (''quantity'', JNum 0)]) sample_db
     = (err 400 ''name, price, quantity are required'', sample_db)
   \<and> post_products sample_env
      (request_of ''A'' [] [(''price'', JStr ''2.00''), (''quantity'', JStr ''5'')]) sample_db
     = (err 400 ''name, price, quantity are required'', sample_db)"
  using create_requires_truthy_fields [of "request_of ''A'' [] [(''name'', JStr ''Kale''),
            (''price'', JNum 0), (''quantity'', JStr ''5'')]" "''A''" sample_env alice sample_db]
    create_requires_truthy_fields [of "request_of ''A'' [] [(''name'', JStr ''Kale''),
            (''price'', JStr ''2.00''), (''quantity'', JNum 0)]" "''A''" sample_env alice sample_db]
    create_requires_truthy_fields [of "request_of ''A'' [] [(''price'', JStr ''2.00''),
            (''quantity'', JStr ''5'')]" "''A''" sample_env alice sample_db]
  by (simp add: sample_auth alice_def)

text \<open>
  C5. For an approved farmer with a valid token, on a route parameter under which the store
  holds no product of that farmer (no product at all, or only products of other farmers),
  \<^verbatim>\<open>PUT\<close> and \<^verbatim>\<open>DELETE /api/products/:id\<close> leave the store as it was and answer 404
  \<^verbatim>\<open>Product not found\<close> when the store reads the parameter as a key, and 500
  \<^verbatim>\<open>Server error\<close> when it does not. The answer is fixed by the parameter alone: it is the
  same whether the product is missing or belongs to another farmer, and it is never 403.
\<close>

theorem not_own_product_response:
  assumes "authorization req = Some (''Bearer '' @ t)" and "t \<noteq> []"
    and "jwt_verify e t = Some c"
    and "c_role c = ''farmer''" and "c_status c = ''approved''"
    and "\<forall>p \<in> set (products d).
           pg_id e (params_id req) = Some (p_id p) \<longrightarrow> p_farmer_id p \<noteq> c_id c"
  shows "put_products_id e req d =
           (case pg_id e (params_id req) of
              None \<Rightarrow> err 500 ''Server error'' | Some k \<Rightarrow> err 404 ''Product not found'', d)
         \<and> delete_products_id e req d =
           (case pg_id e (params_id req) of
              None \<Rightarrow> err 500 ''Server error'' | Some k \<Rightarrow> err 404 ''Product not found'', d)
         \<and> err 404 ''Product not found'' \<noteq> err 403 ''Farmer only''
         \<and> err 404 ''Product not found'' \<noteq> err 403 ''Farmer not approved by admin yet''"
proof (cases "pg_id e (params_id req)")
  case None
  then have "put_product e (req\<lparr>user := Some c\<rparr>) d = (err 500 ''Server error'', d)"
    and "delete_product e (req\<lparr>user := Some c\<rparr>) d = (err 500 ''Server error'', d)"
    by (simp_all add: put_product_def delete_product_def)
  then show ?thesis
    using assms(1-5) None
    by (simp add: put_products_id_def delete_products_id_def guarded_two auth_bearer
        approved_farmer_passes err_def)
next
  case (Some k)
  have none: "filter (\<lambda>p. p_id p = k \<and> p_farmer_id p = c_id c) (products d) = []"
    using assms(6) Some by (auto simp: filter_empty_conv)
  have "put_product e (req\<lparr>user := Some c\<rparr>) d = (err 404 ''Product not found'', d)"
    using Some none by (simp add: put_product_def)
  moreover have "filter (\<lambda>p. \<not> (p_id p = k \<and> p_farmer_id p = c_id c)) (products d) = products d"
    using none by (rule filter_none)
  then have "delete_product e (req\<lparr>user := Some c\<rparr>) d = (err 404 ''Product not found'', d)"
    using Some none by (simp add: delete_product_def)
  ultimately show ?thesis
    using assms(1-5) Some
    by (simp add: put_products_id_def delete_products_id_def guarded_two auth_bearer
        approved_farmer_passes err_def)
qed

theorem not_own_product_response_witness:
  "put_products_id sample_env (request_of ''A'' ''9'' [(''price'', JStr ''9.99'')]) sample_db
     = (err 404 ''Product not found'', sample_db)
   \<and> put_products_id sample_env (request_of ''A'' ''3'' [(''price'', JStr ''9.99'')]) sample_db
     = (err 404 ''Product not found'', sample_db)
   \<and> delete_products_id sample_env (request_of ''A'' ''9'' []) sample_db
     = (err 404 ''Product not found'', sample_db)
   \<and> delete_products_id sample_env (request_of ''A'' ''3'' []) sample_db
     = (err 404 ''Product not found'', sample_db)"
  using not_own_product_response [of "request_of ''A'' ''9'' [(''price'', JStr ''9.99'')]"
      "''A''" sample_env alice sample_db]
    not_own_product_response [of "request_of ''A'' ''3'' [(''price'', JStr ''9.99'')]"
      "''A''" sample_env alice sample_db]
    not_own_product_response [of "request_of ''A'' ''9'' []" "''A''" sample_env alice sample_db]
    not_own_product_response [of "request_of ''A'' ''3'' []" "''A''" sample_env alice sample_db]
  by (simp add: sample_auth sample_pg_id sample_db_sel alice_def tomatoes_def maize_def
      beans_def)

text \<open>
  The approved farmer Alice on the route parameter \<^verbatim>\<open>abc\<close>, under which there is no product:
  the store does not read it as a key, the statement raises, and both routes answer 500,
  not 404.
\<close>

theorem unreadable_id_counterexample:
  "put_products_id sample_env (request_of ''A'' ''abc'' [(''price'', JStr ''9.99'')]) sample_db
     = (err 500 ''Server error'', sample_db)
   \<and> delete_products_id sample_env (request_of ''A'' ''abc'' []) sample_db
     = (err 500 ''Server error'', sample_db)
   \<and> err 500 ''Server error'' \<noteq> err 404 ''Product not found''
   \<and> jwt_verify sample_env ''A'' = Some alice
   \<and> c_role alice = ''farmer'' \<and> c_status alice = ''approved''
   \<and> pg_id sample_env ''abc'' = None
   \<and> map p_id (products sample_db) = [1, 2, 3]"
  by (simp add: put_products_id_def delete_products_id_def guarded_two
      auth_bearer [OF _ _ sample_auth(1)] approved_farmer_passes put_product_def
      delete_product_def sample_auth sample_pg_id sample_db_sel err_def alice_def tomatoes_def
      maize_def beans_def)

lemma guarded_farmer_200:
  assumes "guarded [auth e, requireApprovedFarmer] h req d = (Sent s j, d')"
    and "s \<noteq> 401" and "s \<noteq> 403"
  shows "\<exists>c. c_role c = ''farmer'' \<and> c_status c = ''approved''
             \<and> h (req\<lparr>user := Some c\<rparr>) d = (Sent s j, d')"
  using assms
  by (auto simp: guarded_two auth_def requireApprovedFarmer_def err_def Let_def
      split: sum.splits option.splits if_splits)

lemma coalesce_spec:
  "sql_param e col v = Some n \<Longrightarrow> coalesce n old = spec_merge_field e col v old"
  by (auto simp: sql_param_def coalesce_def spec_merge_field_def split: if_splits option.splits)

lemma spec_merge_field_keeps:
  "sql_param e col v = Some n \<Longrightarrow> old \<noteq> None \<Longrightarrow> spec_merge_field e col v old \<noteq> None"
  by (cases "pg_in e col v") (auto simp: sql_param_def spec_merge_field_def split: if_splits)

lemma update_product_spec:
  assumes "update_product e d (b ''name'') (b ''price'') (b ''quantity'') (b ''image_url'')
             (b ''description'') k = Some (rows, d')"
  shows "d' = d\<lparr>products := map (\<lambda>p. if p_id p = k then spec_merge e b p else p) (products d)\<rparr>
         \<and> rows = map (spec_merge e b) (filter (\<lambda>p. p_id p = k) (products d))
         \<and> (\<forall>p. (p_image_url p \<noteq> None \<longrightarrow> p_image_url (spec_merge e b p) \<noteq> None)
                \<and> (p_description p \<noteq> None \<longrightarrow> p_description (spec_merge e b p) \<noteq> None))
         \<and> (\<forall>fc \<in> set [(''name'', Products_name), (''price'', Products_price),
                         (''quantity'', Products_quantity), (''image_url'', Products_image_url),
                         (''description'', Products_description)].
               b (fst fc) = JUndefined \<or> b (fst fc) = JNull
               \<or> (\<exists>t. pg_in e (snd fc) (b (fst fc)) = Some t))"
proof -
  from assms obtain n pr q i ds where
    n: "sql_param e Products_name (b ''name'') = Some n" and
    pr: "sql_param e Products_price (b ''price'') = Some pr" and
    q: "sql_param e Products_quantity (b ''quantity'') = Some q" and
    i: "sql_param e Products_image_url (b ''image_url'') = Some i" and
    ds: "sql_param e Products_description (b ''description'') = Some ds" and
    rows: "rows = map (set_fields n pr q i ds) (filter (\<lambda>p. p_id p = k) (products d))" and
    d': "d' = d\<lparr>products := map (\<lambda>p. if p_id p = k then set_fields n pr q i ds p else p)
                                  (products d)\<rparr>"
    by (auto simp: update_product_def split: option.splits)
  have eq: "set_fields n pr q i ds = spec_merge e b"
    by (rule ext)
      (simp add: set_fields_def spec_merge_def coalesce_spec [OF n] coalesce_spec [OF pr]
        coalesce_spec [OF q] coalesce_spec [OF i] coalesce_spec [OF ds])
  have stored: "v = JUndefined \<or> v = JNull \<or> (\<exists>t. pg_in e col v = Some t)"
    if "sql_param e col v = Some c" for col v c
    using that by (cases "pg_in e col v") (auto simp: sql_param_def split: if_splits)
  show ?thesis
    using rows d' spec_merge_field_keeps [OF i] spec_merge_field_keeps [OF ds]
      stored [OF n] stored [OF pr] stored [OF q] stored [OF i] stored [OF ds]
    by (simp add: eq spec_merge_def)
qed

text \<open>
  C6. When \<^verbatim>\<open>PUT /api/products/:id\<close> answers 200, the store differs from the one before
  only in the products with the requested key, and in them only as the update rule of the
  specification says: each of name, price, quantity, image_url and description that the
  request provides is replaced by what the store reads from the provided value, each one
  that is omitted or \<^verbatim>\<open>null\<close> keeps its stored value. The answer is the merged row. In particular an image_url or a
  description that was set is still set after the update: it cannot be reset to NULL.
\<close>

theorem update_merges_fields:
  assumes "put_products_id e req d = (Sent 200 j, d')"
  shows "\<exists>k. pg_id e (params_id req) = Some k
     \<and> d' = d\<lparr>products := map (\<lambda>p. if p_id p = k then spec_merge e (body req) p else p)
                              (products d)\<rparr>
     \<and> (\<exists>p \<in> set (products d). p_id p = k \<and> j = product_row e (spec_merge e (body req) p))
     \<and> (\<forall>fc \<in> set [(''name'', Products_name), (''price'', Products_price),
                     (''quantity'', Products_quantity), (''image_url'', Products_image_url),
                     (''description'', Products_description)].
           body req (fst fc) = JUndefined \<or> body req (fst fc) = JNull
           \<or> (\<exists>t. pg_in e (snd fc) (body req (fst fc)) = Some t))
     \<and> (\<forall>p \<in> set (products d).
           (p_image_url p \<noteq> None \<longrightarrow> p_image_url (spec_merge e (body req) p) \<noteq> None)
         \<and> (p_description p \<noteq> None \<longrightarrow> p_description (spec_merge e (body req) p) \<noteq> None))"
proof -
  from assms obtain c where
    run: "put_product e (req\<lparr>user := Some c\<rparr>) d = (Sent 200 j, d')"
    unfolding put_products_id_def using guarded_farmer_200 by fastforce
  from run obtain k rows where
    k: "pg_id e (params_id req) = Some k" and
    owned: "filter (\<lambda>p. p_id p = k \<and> p_farmer_id p = c_id c) (products d) \<noteq> []" and
    upd: "update_product e d (body req ''name'') (body req ''price'') (body req ''quantity'')
            (body req ''image_url'') (body req ''description'') k = Some (rows, d')" and
    j: "j = (case rows of [] \<Rightarrow> JUndefined | r # _ \<Rightarrow> product_row e r)"
    by (auto simp: put_product_def err_def Let_def split: option.splits if_splits)
  note spec = update_product_spec [OF upd]
  from owned obtain p0 where "p0 \<in> set (products d)" "p_id p0 = k"
    by (auto simp: filter_empty_conv)
  then have "filter (\<lambda>p. p_id p = k) (products d) \<noteq> []"
    by (auto simp: filter_empty_conv)
  then obtain p ps where ps: "filter (\<lambda>p. p_id p = k) (products d) = p # ps"
    by (cases "filter (\<lambda>p. p_id p = k) (products d)") auto
  then have "p \<in> set (filter (\<lambda>p. p_id p = k) (products d))" by simp
  then have p: "p \<in> set (products d)" "p_id p = k" by auto
  have "j = product_row e (spec_merge e (body req) p)"
    using j spec ps by simp
  with p have "\<exists>p \<in> set (products d). p_id p = k \<and> j = product_row e (spec_merge e (body req) p)"
    by blast
  with k spec show ?thesis by (intro exI [of _ k]) simp
qed

theorem update_merges_fields_witness:
  "put_products_id sample_env
      (request_of ''A'' ''1'' [(''price'', JStr ''2.75''), (''image_url'', JNull)]) sample_db
     = (Sent 200 (product_row sample_env (tomatoes\<lparr>p_price := Some ''2.75''\<rparr>)),
        sample_db\<lparr>products := [tomatoes\<lparr>p_price := Some ''2.75''\<rparr>, maize, beans]\<rparr>)
   \<and> p_image_url (tomatoes\<lparr>p_price := Some ''2.75''\<rparr>) = Some ''t.png''"
proof -
  let ?req = "request_of ''A'' ''1'' [(''price'', JStr ''2.75''), (''image_url'', JNull)]"
  have pg: "pg_in sample_env col (JStr s) = Some s" for col s
    by (simp add: sample_env_def)
  have run: "put_products_id sample_env ?req sample_db
     = (Sent 200 (product_row sample_env (tomatoes\<lparr>p_price := Some ''2.75''\<rparr>)),
        sample_db\<lparr>products := [tomatoes\<lparr>p_price := Some ''2.75''\<rparr>, maize, beans]\<rparr>)"
    by (simp add: put_products_id_def guarded_two auth_bearer [OF _ _ sample_auth(1)]
        approved_farmer_passes put_product_def update_product_def sql_param_def pg
        sample_pg_id sample_db_sel set_fields_def coalesce_def alice_def tomatoes_def
        maize_def beans_def)
  have merged: "spec_merge sample_env (body ?req) tomatoes = tomatoes\<lparr>p_price := Some ''2.75''\<rparr>"
    by (simp add: spec_merge_def spec_merge_field_def pg tomatoes_def)
  show ?thesis
    using update_merges_fields [OF run] run merged by (simp add: tomatoes_def)
qed

section \<open>Login\<close>

text \<open>
  When the lookup by email finds no user, and when it finds one and the password comparison
  resolves to \<^verbatim>\<open>false\<close>, the answer is the same 401 and the store is as it was.
\<close>

lemma login_mismatch_401:
  assumes "select_users_by_email e d (body req ''email'') = Some rows"
    and "rows = [] \<or> (\<exists>u rest. rows = u # rest
           \<and> bcrypt_compare e (body req ''password'') (u_password_hash u) = Some False)"
  shows "post_auth_login e req d = (err 401 ''Invalid credentials'', d)"
  using assms by (auto simp: post_auth_login_def)

text \<open>
  C8. The code against the claim that a login with an incorrect password is answered the
  same way whether or not the email is registered. The comparison is only reached for a
  registered email, and the handler does not check the password before it. When the
  comparison rejects (the library does so for a password that is missing or not a string),
  the handler's \<^verbatim>\<open>catch\<close> answers 500 \<^verbatim>\<open>Server error\<close>, while the same password with
  an email that is not registered is answered 401 \<^verbatim>\<open>Invalid credentials\<close>: the two
  answers differ, and tell a registered email from an unknown one.
\<close>

theorem login_reveals_registered_email:
  assumes "select_users_by_email e d (body req1 ''email'') = Some (u # rest)"
    and "bcrypt_compare e (body req1 ''password'') (u_password_hash u) = None"
    and "select_users_by_email e d (body req2 ''email'') = Some []"
  shows "post_auth_login e req1 d = (err 500 ''Server error'', d)
         \<and> post_auth_login e req2 d = (err 401 ''Invalid credentials'', d)
         \<and> fst (post_auth_login e req1 d) \<noteq> fst (post_auth_login e req2 d)"
  using assms by (simp add: post_auth_login_def err_def)

theorem login_reveals_registered_email_witness:
  "post_auth_login sample_env (request_of [] [] [(''email'', JStr ''alice@temo.local'')])
      sample_db = (err 500 ''Server error'', sample_db)
   \<and> post_auth_login sample_env (request_of [] [] [(''email'', JStr ''nobody@temo.local'')])
      sample_db = (err 401 ''Invalid credentials'', sample_db)
   \<and> fst (post_auth_login sample_env
             (request_of [] [] [(''email'', JStr ''alice@temo.local'')]) sample_db)
     \<noteq> fst (post_auth_login sample_env
             (request_of [] [] [(''email'', JStr ''nobody@temo.local'')]) sample_db)"
proof -
  let ?known = "request_of [] [] [(''email'', JStr ''alice@temo.local'')]"
  let ?unknown = "request_of [] [] [(''email'', JStr ''nobody@temo.local'')]"
  let ?row = "user_of alice ''alice@temo.local'' ''#apples'' 2"
  have found: "select_users_by_email sample_env sample_db (body ?known ''email'') = Some [?row]"
    by (simp add: select_users_by_email_def sql_param_def request_of_def sample_env_def
        sample_db_def user_of_def)
  have rejects: "bcrypt_compare sample_env (body ?known ''password'') (u_password_hash ?row)
      = None"
    by (simp add: request_of_def sample_env_def)
  have missing: "select_users_by_email sample_env sample_db (body ?unknown ''email'') = Some []"
    by (simp add: select_users_by_email_def sql_param_def request_of_def sample_env_def
        sample_db_def user_of_def)
  show ?thesis
    by (rule login_reveals_registered_email [OF found rejects missing])
qed

section \<open>Registration\<close>

text \<open>
  C4. When \<^verbatim>\<open>POST /api/auth/register\<close> answers 201, exactly one user has been added to the
  store. Its role is the requested one, farmer or consumer, and its status follows from the
  role: pending for a farmer, approved for a consumer. The user object of the answer carries
  the same status.
\<close>

theorem register_status_by_role:
  assumes "post_auth_register e req d = (Sent 201 j, d')"
  shows "\<exists>u. d' = d\<lparr>users := users d @ [u], users_id_seq := Suc (users_id_seq d)\<rparr>
           \<and> body req ''role'' = JStr (u_role u)
           \<and> (u_role u = ''farmer'' \<or> u_role u = ''consumer'')
           \<and> u_status u = (if u_role u = ''farmer'' then ''pending'' else ''approved'')
           \<and> j = JObj [(''user'', JObj (returning_user u)), (''token'', JStr (signToken e u))]
           \<and> js_get (JObj (returning_user u)) ''status'' = JStr (u_status u)"
proof -
  let ?role = "case body req ''role'' of JStr r \<Rightarrow> r | _ \<Rightarrow> []"
  let ?status = "if body req ''role'' = JStr ''farmer'' then ''pending'' else ''approved''"
  from assms obtain hash u where
    role: "body req ''role'' = JStr ''consumer'' \<or> body req ''role'' = JStr ''farmer''" and
    ins: "insert_user e d (body req ''name'') (body req ''email'') hash ?role ?status
            = Some (u, d')" and
    j: "j = JObj [(''user'', JObj (returning_user u)), (''token'', JStr (signToken e u))]"
    by (auto simp: post_auth_register_def err_def Let_def split: if_splits option.splits)
  from ins have u: "u_role u = ?role" "u_status u = ?status"
    and d': "d' = d\<lparr>users := users d @ [u], users_id_seq := Suc (users_id_seq d)\<rparr>"
    by (auto simp: insert_user_def Let_def split: option.splits)
  have "body req ''role'' = JStr (u_role u)"
    "u_role u = ''farmer'' \<or> u_role u = ''consumer''"
    "u_status u = (if u_role u = ''farmer'' then ''pending'' else ''approved'')"
    "js_get (JObj (returning_user u)) ''status'' = JStr (u_status u)"
    using role u by (auto simp: returning_user_def)
  with d' j show ?thesis by blast
qed

lemma sample_pg_in: "pg_in sample_env col (JStr s) = Some s"
  by (simp add: sample_env_def)

lemma sample_hash: "bcrypt_hash sample_env (JStr s) = Some (''#'' @ s)"
  by (simp add: sample_env_def)

lemma sample_no_such_email:
  "select_users_by_email sample_env sample_db (JStr ''dan@temo.local'') = Some []"
  "select_users_by_email sample_env sample_db (JStr ''eve@temo.local'') = Some []"
  by (simp_all add: select_users_by_email_def sql_param_def sample_pg_in sample_db_sel
      user_of_def)

theorem register_status_by_role_witness:
  "(\<exists>j d' u. post_auth_register sample_env
       (request_of [] [] [(''name'', JStr ''Dan''), (''email'', JStr ''dan@temo.local''),
                          (''password'', JStr ''dates''), (''role'', JStr ''farmer'')])
       sample_db = (Sent 201 j, d')
     \<and> users d' = users sample_db @ [u] \<and> u_role u = ''farmer'' \<and> u_status u = ''pending'')
   \<and> (\<exists>j d' u. post_auth_register sample_env
       (request_of [] [] [(''name'', JStr ''Eve''), (''email'', JStr ''eve@temo.local''),
                          (''password'', JStr ''endive''), (''role'', JStr ''consumer'')])
       sample_db = (Sent 201 j, d')
     \<and> users d' = users sample_db @ [u] \<and> u_role u = ''consumer'' \<and> u_status u = ''approved'')"
proof -
  let ?dan = "request_of [] [] [(''name'', JStr ''Dan''), (''email'', JStr ''dan@temo.local''),
                          (''password'', JStr ''dates''), (''role'', JStr ''farmer'')]"
  let ?eve = "request_of [] [] [(''name'', JStr ''Eve''), (''email'', JStr ''eve@temo.local''),
                          (''password'', JStr ''endive''), (''role'', JStr ''consumer'')]"
  have "\<exists>j d'. post_auth_register sample_env ?dan sample_db = (Sent 201 j, d')"
    by (simp add: post_auth_register_def sample_no_such_email insert_user_def sql_param_def
        sample_pg_in sample_hash Let_def)
  then obtain j1 d1 where d1: "post_auth_register sample_env ?dan sample_db = (Sent 201 j1, d1)"
    by blast
  have "\<exists>j d'. post_auth_register sample_env ?eve sample_db = (Sent 201 j, d')"
    by (simp add: post_auth_register_def sample_no_such_email insert_user_def sql_param_def
        sample_pg_in sample_hash Let_def)
  then obtain j2 d2 where d2: "post_auth_register sample_env ?eve sample_db = (Sent 201 j2, d2)"
    by blast
  from register_status_by_role [OF d1] obtain u1 where
    u1: "d1 = sample_db\<lparr>users := users sample_db @ [u1],
                         users_id_seq := Suc (users_id_seq sample_db)\<rparr>"
      "body ?dan ''role'' = JStr (u_role u1)"
      "u_status u1 = (if u_role u1 = ''farmer'' then ''pending'' else ''approved'')"
    by blast
  from u1(2) have r1: "u_role u1 = ''farmer''" by simp
  from u1(1) have "users d1 = users sample_db @ [u1]" by simp
  with u1(3) r1 have dan: "users d1 = users sample_db @ [u1] \<and> u_role u1 = ''farmer''
      \<and> u_status u1 = ''pending''"
    by simp
  from register_status_by_role [OF d2] obtain u2 where
    u2: "d2 = sample_db\<lparr>users := users sample_db @ [u2],
                         users_id_seq := Suc (users_id_seq sample_db)\<rparr>"
      "body ?eve ''role'' = JStr (u_role u2)"
      "u_status u2 = (if u_role u2 = ''farmer'' then ''pending'' else ''approved'')"
    by blast
  from u2(2) have r2: "u_role u2 = ''consumer''" by simp
  from u2(1) have "users d2 = users sample_db @ [u2]" by simp
  with u2(3) r2 have eve: "users d2 = users sample_db @ [u2] \<and> u_role u2 = ''consumer''
      \<and> u_status u2 = ''approved''"
    by simp
  from d1 dan d2 eve show ?thesis by blast
qed







section \<open>Public listing\<close>

lemma admin_passes:
  "c_role c = ''admin'' \<Longrightarrow>
   requireRole [''admin''] (req\<lparr>user := Some c\<rparr>) = Inr (req\<lparr>user := Some c\<rparr>)"
  by (simp add: requireRole_def)

lemma sample_approve_bob:
  "patch_admin_farmers_approve sample_env (request_of ''R'' ''2'' []) sample_db
     = (Sent 200 (JObj [(''ok'', JBool True)]),
        sample_db\<lparr>users := [user_of root ''admin@temo.local'' ''#Admin@123'' 1,
               user_of alice ''alice@temo.local'' ''#apples'' 2,
               (user_of bob ''bob@temo.local'' ''#beans'' 3)\<lparr>u_status := ''approved''\<rparr>,
               user_of carol ''carol@temo.local'' ''#carrots'' 4]\<rparr>)"
  by (simp add: patch_admin_farmers_approve_def guarded_two auth_bearer [OF _ _ sample_auth(4)]
      admin_passes approve_farmer_def ok_true_def sample_pg_id sample_db_sel user_of_def
      root_def alice_def bob_def carol_def)

lemma at_most_one_owner:
  "distinct (map u_id us) \<Longrightarrow> length (filter (\<lambda>u. u_id u = k \<and> R u) us) \<le> 1"
proof (induction us)
  case Nil
  then show ?case by simp
next
  case (Cons u us)
  show ?case
  proof (cases "u_id u = k \<and> R u")
    case True
    with Cons.prems have "filter (\<lambda>u. u_id u = k \<and> R u) us = []"
      by (auto simp: filter_empty_conv image_iff)
    with True show ?thesis by simp
  next
    case False
    with Cons show ?thesis by auto
  qed
qed

lemma owner_rows:
  assumes "distinct (map u_id us)"
  shows "map fst (map (\<lambda>u. (p, u)) (filter (\<lambda>u. u_id u = k \<and> R u) us))
         = (if \<exists>u \<in> set us. u_id u = k \<and> R u then [p] else [])"
proof (cases "filter (\<lambda>u. u_id u = k \<and> R u) us")
  case Nil
  then show ?thesis by (auto simp: filter_empty_conv)
next
  case (Cons u rest)
  with at_most_one_owner [OF assms, of k R] have "rest = []" by simp
  moreover from Cons have "u \<in> set (filter (\<lambda>u. u_id u = k \<and> R u) us)" by simp
  then have "\<exists>u \<in> set us. u_id u = k \<and> R u" by auto
  ultimately show ?thesis using Cons by simp
qed

lemma joined_products:
  assumes "distinct (map u_id us)"
  shows "map fst (concat (map (\<lambda>p. map (\<lambda>u. (p, u))
                (filter (\<lambda>u. u_id u = p_farmer_id p \<and> R u) us)) ps))
         = filter (\<lambda>p. \<exists>u \<in> set us. u_id u = p_farmer_id p \<and> R u) ps"
proof (induction ps)
  case Nil
  then show ?case by simp
next
  case (Cons p ps)
  have "map fst (map (\<lambda>u. (p, u)) (filter (\<lambda>u. u_id u = p_farmer_id p \<and> R u) us))
        = (if \<exists>u \<in> set us. u_id u = p_farmer_id p \<and> R u then [p] else [])"
    by (rule owner_rows [OF assms])
  with Cons show ?case by simp
qed

lemma public_rows_set:
  "set (public_rows d) =
     {(p, u). p \<in> set (products d) \<and> u \<in> set (users d) \<and> u_id u = p_farmer_id p
              \<and> u_role u = ''farmer'' \<and> u_status u = ''approved''}"
  by (auto simp: public_rows_def)

lemma public_rows_sorted:
  "sorted_wrt (\<lambda>a b. p_created_at (fst b) \<le> p_created_at (fst a)) (public_rows d)"
proof -
  have "sorted (map (\<lambda>pu. - int (p_created_at (fst pu))) (public_rows d))"
    unfolding public_rows_def by (rule sorted_sort_key)
  then show ?thesis
    by (simp add: sorted_map)
qed

lemma public_rows_mset:
  assumes "distinct (map u_id (users d))"
  shows "mset (map fst (public_rows d)) =
         mset (filter (\<lambda>p. \<exists>u \<in> set (users d). u_id u = p_farmer_id p
                 \<and> u_role u = ''farmer'' \<and> u_status u = ''approved'') (products d))"
proof -
  let ?joined = "concat (map (\<lambda>p. map (\<lambda>u. (p, u))
                  (filter (\<lambda>u. u_id u = p_farmer_id p \<and> u_role u = ''farmer''
                                \<and> u_status u = ''approved'') (users d))) (products d))"
  have "mset (map fst (public_rows d)) = mset (map fst ?joined)"
    by (simp add: public_rows_def)
  also have "map fst ?joined =
      filter (\<lambda>p. \<exists>u \<in> set (users d). u_id u = p_farmer_id p
                 \<and> u_role u = ''farmer'' \<and> u_status u = ''approved'') (products d)"
    by (rule joined_products [OF assms])
  finally show ?thesis .
qed

text \<open>
  C2. In every state of the store \<^verbatim>\<open>GET /api/products\<close> answers 200, changes nothing, and
  lists one row for each element of \<open>public_rows\<close>, in that order: the pairs of a product
  and a user of the store as it is at the query, where the user is the product's owner, a
  farmer, and approved. With unique user ids these are exactly the products that have such
  an owner, each one as often as it is stored. Every listed row has the keys id, name,
  price, quantity, image_url, description and farmer_name and no other; the first six carry
  the product's columns, \<^verbatim>\<open>farmer_name\<close> the owner's name. The rows come newest first:
  \<^verbatim>\<open>created_at\<close> never grows along the list.
\<close>

theorem public_listing:
  "get_products e req d = (Sent 200 (JArr (map (listing_row e) (public_rows d))), d)
   \<and> set (public_rows d) =
       {(p, u). p \<in> set (products d) \<and> u \<in> set (users d) \<and> u_id u = p_farmer_id p
                \<and> u_role u = ''farmer'' \<and> u_status u = ''approved''}
   \<and> (distinct (map u_id (users d)) \<longrightarrow>
        mset (map fst (public_rows d)) =
        mset (filter (\<lambda>p. \<exists>u \<in> set (users d). u_id u = p_farmer_id p
                \<and> u_role u = ''farmer'' \<and> u_status u = ''approved'') (products d)))
   \<and> (\<forall>pu \<in> set (public_rows d).
         js_keys (listing_row e pu) =
           [''id'', ''name'', ''price'', ''quantity'', ''image_url'', ''description'',
            ''farmer_name'']
         \<and> js_get (listing_row e pu) ''id'' = JNum (of_nat (p_id (fst pu)))
         \<and> js_get (listing_row e pu) ''name'' = cell_js (p_name (fst pu))
         \<and> js_get (listing_row e pu) ''price'' = cell_out e Products_price (p_price (fst pu))
         \<and> js_get (listing_row e pu) ''quantity'' =
             cell_out e Products_quantity (p_quantity (fst pu))
         \<and> js_get (listing_row e pu) ''image_url'' = cell_js (p_image_url (fst pu))
         \<and> js_get (listing_row e pu) ''description'' = cell_js (p_description (fst pu))
         \<and> js_get (listing_row e pu) ''farmer_name'' = cell_js (u_name (snd pu)))
   \<and> sorted_wrt (\<lambda>a b. p_created_at (fst b) \<le> p_created_at (fst a)) (public_rows d)"
  using public_rows_set [of d] public_rows_sorted [of d] public_rows_mset [of d]
  by (simp add: get_products_def listing_row_def)

lemma sample_public_rows:
  "public_rows sample_db =
     [(maize, user_of alice ''alice@temo.local'' ''#apples'' 2),
      (tomatoes, user_of alice ''alice@temo.local'' ''#apples'' 2)]"
  by (simp add: public_rows_def sample_db_sel user_of_def root_def alice_def bob_def carol_def
      tomatoes_def maize_def beans_def)

lemma sample_public_rows_bob:
  "public_rows (sample_db\<lparr>users := [user_of root ''admin@temo.local'' ''#Admin@123'' 1,
               user_of alice ''alice@temo.local'' ''#apples'' 2,
               (user_of bob ''bob@temo.local'' ''#beans'' 3)\<lparr>u_status := ''approved''\<rparr>,
               user_of carol ''carol@temo.local'' ''#carrots'' 4]\<rparr>) =
     [(beans, (user_of bob ''bob@temo.local'' ''#beans'' 3)\<lparr>u_status := ''approved''\<rparr>),
      (maize, user_of alice ''alice@temo.local'' ''#apples'' 2),
      (tomatoes, user_of alice ''alice@temo.local'' ''#apples'' 2)]"
  by (simp add: public_rows_def sample_db_sel user_of_def root_def alice_def bob_def carol_def
      tomatoes_def maize_def beans_def)

lemma sample_pg_out:
  "pg_out sample_env Products_price t = JStr t"
  "pg_out sample_env Products_quantity ''5'' = JNum 5"
  "pg_out sample_env Products_quantity ''10'' = JNum 10"
  "pg_out sample_env Products_quantity ''40'' = JNum 40"
  by (simp_all add: sample_env_def read_key_def digit_of_def)

lemma sample_listing_rows:
  "listing_row sample_env (tomatoes, user_of alice ''alice@temo.local'' ''#apples'' 2) =
     JObj [(''id'', JNum 1), (''name'', JStr ''Tomatoes''), (''price'', JStr ''2.50''),
           (''quantity'', JNum 10), (''image_url'', JStr ''t.png''), (''description'', JNull),
           (''farmer_name'', JStr ''Alice'')]"
  "listing_row sample_env (maize, user_of alice ''alice@temo.local'' ''#apples'' 2) =
     JObj [(''id'', JNum 2), (''name'', JStr ''Maize''), (''price'', JStr ''1.00''),
           (''quantity'', JNum 40), (''image_url'', JNull), (''description'', JNull),
           (''farmer_name'', JStr ''Alice'')]"
  "listing_row sample_env
      (beans, (user_of bob ''bob@temo.local'' ''#beans'' 3)\<lparr>u_status := ''approved''\<rparr>) =
     JObj [(''id'', JNum 3), (''name'', JStr ''Beans''), (''price'', JStr ''3.00''),
           (''quantity'', JNum 5), (''image_url'', JNull), (''description'', JNull),
           (''farmer_name'', JStr ''Bob'')]"
  by (simp_all add: listing_row_def cell_js_def cell_out_def sample_pg_out user_of_def
      alice_def bob_def tomatoes_def maize_def beans_def)

theorem public_listing_witness:
  "get_products sample_env (request_of [] [] []) sample_db
     = (Sent 200 (JArr
         [JObj [(''id'', JNum 2), (''name'', JStr ''Maize''), (''price'', JStr ''1.00''),
                (''quantity'', JNum 40), (''image_url'', JNull), (''description'', JNull),
                (''farmer_name'', JStr ''Alice'')],
          JObj [(''id'', JNum 1), (''name'', JStr ''Tomatoes''), (''price'', JStr ''2.50''),
                (''quantity'', JNum 10), (''image_url'', JStr ''t.png''),
                (''description'', JNull), (''farmer_name'', JStr ''Alice'')]]),
        sample_db)
   \<and> p_created_at tomatoes \<le> p_created_at maize
   \<and> fst (get_products sample_env (request_of [] [] [])
        (snd (patch_admin_farmers_approve sample_env (request_of ''R'' ''2'' []) sample_db)))
     = Sent 200 (JArr
         [JObj [(''id'', JNum 3), (''name'', JStr ''Beans''), (''price'', JStr ''3.00''),
                (''quantity'', JNum 5), (''image_url'', JNull), (''description'', JNull),
                (''farmer_name'', JStr ''Bob'')],
          JObj [(''id'', JNum 2), (''name'', JStr ''Maize''), (''price'', JStr ''1.00''),
                (''quantity'', JNum 40), (''image_url'', JNull), (''description'', JNull),
                (''farmer_name'', JStr ''Alice'')],
          JObj [(''id'', JNum 1), (''name'', JStr ''Tomatoes''), (''price'', JStr ''2.50''),
                (''quantity'', JNum 10), (''image_url'', JStr ''t.png''),
                (''description'', JNull), (''farmer_name'', JStr ''Alice'')]])"
proof -
  let ?after = "snd (patch_admin_farmers_approve sample_env (request_of ''R'' ''2'' []) sample_db)"
  have before: "get_products sample_env (request_of [] [] []) sample_db
      = (Sent 200 (JArr (map (listing_row sample_env) (public_rows sample_db))), sample_db)"
    using public_listing [of sample_env "request_of [] [] []" sample_db] by (rule conjunct1)
  have "get_products sample_env (request_of [] [] []) ?after
      = (Sent 200 (JArr (map (listing_row sample_env) (public_rows ?after))), ?after)"
    using public_listing [of sample_env "request_of [] [] []" ?after] by (rule conjunct1)
  then have after: "fst (get_products sample_env (request_of [] [] []) ?after)
      = Sent 200 (JArr (map (listing_row sample_env) (public_rows ?after)))"
    by simp
  have order: "p_created_at tomatoes \<le> p_created_at maize"
    by (simp add: tomatoes_def maize_def)
  show ?thesis
    using before after order
    unfolding sample_approve_bob snd_conv sample_public_rows sample_public_rows_bob list.map
      sample_listing_rows
    by (intro conjI)
qed

section \<open>Farmer approval\<close>

text \<open>
  C3. The code against the claim that approving an approved farmer gives 404. The
  \<^verbatim>\<open>UPDATE\<close> selects the rows by id and role only, so for an admin and a key under which
  the store holds farmers, all of them approved already,
  \<^verbatim>\<open>PATCH /api/admin/farmers/:id/approve\<close> answers 200 \<^verbatim>\<open>{ ok: true }\<close> and the store stays
  as it was; the 404 \<^verbatim>\<open>Farmer not found or already approved\<close> is only sent when no farmer
  has the key.
\<close>

theorem approve_approved_farmer_200:
  assumes "authorization req = Some (''Bearer '' @ t)" and "t \<noteq> []"
    and "jwt_verify e t = Some c" and "c_role c = ''admin''"
    and "pg_id e (params_id req) = Some k"
    and "\<exists>u \<in> set (users d). u_id u = k \<and> u_role u = ''farmer''"
    and "\<forall>u \<in> set (users d). u_id u = k \<and> u_role u = ''farmer'' \<longrightarrow> u_status u = ''approved''"
  shows "patch_admin_farmers_approve e req d = (Sent 200 (JObj [(''ok'', JBool True)]), d)"
proof -
  have some: "filter (\<lambda>u. u_id u = k \<and> u_role u = ''farmer'') (users d) \<noteq> []"
    using assms(6) by (auto simp: filter_empty_conv)
  have "map (\<lambda>u. if u_id u = k \<and> u_role u = ''farmer'' then u\<lparr>u_status := ''approved''\<rparr>
                  else u) (users d) = users d"
    using assms(7) by (intro map_idI) auto
  then have "approve_farmer e (req\<lparr>user := Some c\<rparr>) d = (ok_true, d)"
    using assms(5) some by (simp add: approve_farmer_def)
  then show ?thesis
    using assms(1-4)
    by (simp add: patch_admin_farmers_approve_def guarded_two auth_bearer admin_passes
        ok_true_def)
qed

theorem approve_approved_farmer_200_witness:
  "patch_admin_farmers_approve sample_env (request_of ''R'' ''1'' []) sample_db
     = (Sent 200 (JObj [(''ok'', JBool True)]), sample_db)
   \<and> map u_status (filter (\<lambda>u. u_id u = 1) (users sample_db)) = [''approved'']"
  using approve_approved_farmer_200 [of "request_of ''R'' ''1'' []" "''R''" sample_env root 1
      sample_db]
  by (simp add: sample_auth sample_pg_id sample_db_sel user_of_def root_def alice_def bob_def
      carol_def)

end
